theory Spec2Isabelle
  imports Main
begin

section \<open>The banner image worker (src/index.ts)\<close>

text \<open>
  The worker exports one function, \<open>fetch(request, env)\<close>. It reads two query
  parameters, looks the Unsplash metadata up in a Workers KV namespace, asks the Unsplash
  API on a miss and stores the answer, fetches the image the metadata points to and
  answers with the image and three attribution headers. Everything it does goes through
  the JavaScript platform: property access on parsed JSON, \<open>||\<close>, template literals,
  \<open>parseInt\<close>, \<open>Headers\<close>, \<open>Response\<close>, the global \<open>fetch\<close> and the KV binding.
  The first sections model those platform operations, as ECMAScript and the Fetch
  standard define them; the handler follows, line by line.

  JavaScript strings are modelled as HOL strings holding their UTF-8 bytes.
\<close>

subsection \<open>Exceptions\<close>

datatype js_error =
    TypeError string
  | RangeError string
  | SyntaxError string
  | OtherError string

definition and_then :: "js_error + 'a \<Rightarrow> ('a \<Rightarrow> js_error + 'b) \<Rightarrow> js_error + 'b" where
  "and_then r f = (case r of Inl e \<Rightarrow> Inl e | Inr v \<Rightarrow> f v)"

subsection \<open>Values parsed from JSON\<close>

text \<open>
  \<open>env.CACHE.get(key, {type: 'json'})\<close> and \<open>response.json()\<close> return whatever
  \<open>JSON.parse\<close> produced; the TypeScript type \<open>UnsplashApiResponse\<close> is an
  unchecked annotation. A number is held as the text \<open>Number.prototype.toString\<close>
  gives for it (\<open>-0\<close> prints as \<open>0\<close>): the handler never computes with one, it can
  only test it for truthiness and print it. An object is the list of its own
  properties, each name once (\<open>JSON.parse\<close> keeps the last of a repeated name).
\<close>

datatype jsval =
    JUndefined
  | JNull
  | JBoolean bool
  | JNumber string
  | JString string
  | JArray "jsval list"
  | JObject "(string \<times> jsval) list"

text \<open>ToBoolean, the test behind \<open>!unsplashData\<close>.\<close>

fun ToBoolean :: "jsval \<Rightarrow> bool" where
  "ToBoolean JUndefined = False"
| "ToBoolean JNull = False"
| "ToBoolean (JBoolean b) = b"
| "ToBoolean (JNumber n) = (n \<noteq> ''0'' \<and> n \<noteq> ''NaN'')"
| "ToBoolean (JString s) = (s \<noteq> [])"
| "ToBoolean (JArray xs) = True"
| "ToBoolean (JObject kvs) = True"

text \<open>
  Property read \<open>v.k\<close>, for a name \<open>k\<close> that no built-in prototype defines (true of
  \<open>urls\<close>, \<open>raw\<close>, \<open>user\<close>, \<open>name\<close>, \<open>links\<close> and \<open>html\<close>, the names the handler
  reads): reading from \<open>undefined\<close> or \<open>null\<close> throws a TypeError, an object gives its
  own property or \<open>undefined\<close>, every other value gives \<open>undefined\<close>.
\<close>

fun GetV :: "jsval \<Rightarrow> string \<Rightarrow> js_error + jsval" where
  "GetV JUndefined k = Inl (TypeError ''Cannot read properties of undefined'')"
| "GetV JNull k = Inl (TypeError ''Cannot read properties of null'')"
| "GetV (JObject kvs) k = Inr (case map_of kvs k of None \<Rightarrow> JUndefined | Some v \<Rightarrow> v)"
| "GetV v k = Inr JUndefined"

text \<open>
  ToString, applied by a template literal and by the conversion of a header value.
  An array prints its elements separated by commas, \<open>undefined\<close> and \<open>null\<close> as
  nothing. An object prints as \<open>[object Object]\<close>, unless it has an own property
  \<open>toString\<close>: a JSON value is not callable, the fallback \<open>valueOf\<close> yields no
  primitive either, and the conversion throws.
\<close>

fun ToString :: "jsval \<Rightarrow> js_error + string"
  and join_elements :: "jsval list \<Rightarrow> js_error + string"
  and element_text :: "jsval \<Rightarrow> js_error + string" where
  "ToString JUndefined = Inr ''undefined''"
| "ToString JNull = Inr ''null''"
| "ToString (JBoolean b) = Inr (if b then ''true'' else ''false'')"
| "ToString (JNumber n) = Inr n"
| "ToString (JString s) = Inr s"
| "ToString (JArray xs) = join_elements xs"
| "ToString (JObject kvs) =
     (if map_of kvs ''toString'' = None then Inr ''[object Object]''
      else Inl (TypeError ''Cannot convert object to primitive value''))"
| "join_elements [] = Inr []"
| "join_elements [x] = element_text x"
| "join_elements (x # y # ys) =
     and_then (element_text x) (\<lambda>s. and_then (join_elements (y # ys)) (\<lambda>r. Inr (s @ '','' @ r)))"
| "element_text JUndefined = Inr []"
| "element_text JNull = Inr []"
| "element_text v = ToString v"

subsection \<open>Numbers the handler computes\<close>

text \<open>
  The time to live is the literal \<open>900\<close> or a result of \<open>parseInt\<close>: an integer or NaN.
  The model keeps the exact integer (JavaScript rounds it to the nearest double, which
  differs beyond \<open>2^53\<close> only).
\<close>

datatype js_number = NaN | Finite int

definition is_digit :: "char \<Rightarrow> bool" where
  "is_digit c = (48 \<le> (of_char c :: nat) \<and> (of_char c :: nat) \<le> 57)"

definition digit_value :: "char \<Rightarrow> int" where
  "digit_value c = int (of_char c) - 48"

definition decimal_value :: "string \<Rightarrow> int" where
  "decimal_value ds = foldl (\<lambda>acc c. 10 * acc + digit_value c) 0 ds"

text \<open>
  The length in bytes of the white space or line terminator that starts the text, 0 if
  there is none: TAB, LF, VT, FF, CR, SP, and in UTF-8 U+00A0, U+1680, U+2000 to
  U+200A, U+2028, U+2029, U+202F, U+205F, U+3000 and U+FEFF.
\<close>

definition white_space_length :: "nat list \<Rightarrow> nat" where
  "white_space_length bs =
     (case bs of
        [] \<Rightarrow> 0
      | a # r \<Rightarrow>
          if a \<in> {9, 10, 11, 12, 13, 32} then 1
          else if a = 194 \<and> take 1 r = [160] then 2
          else if a = 225 \<and> take 2 r = [154, 128] then 3
          else if a = 226 \<and> take 1 r = [128] \<and>
                  (case drop 1 r of [] \<Rightarrow> False
                   | c # _ \<Rightarrow> (128 \<le> c \<and> c \<le> 138) \<or> c = 168 \<or> c = 169 \<or> c = 175) then 3
          else if a = 226 \<and> take 2 r = [129, 159] then 3
          else if a = 227 \<and> take 2 r = [128, 128] then 3
          else if a = 239 \<and> take 2 r = [187, 191] then 3
          else 0)"

function trim_start :: "string \<Rightarrow> string" where
  "trim_start s =
     (if white_space_length (map of_char (take 3 s)) = 0 then s
      else trim_start (drop (white_space_length (map of_char (take 3 s))) s))"
  by pat_completeness auto
termination
proof (relation "measure length")
  fix s :: string
  assume white: "white_space_length (map of_char (take 3 s)) \<noteq> 0"
  have "white_space_length (map of_char (take 3 [])) = 0"
    by (simp add: white_space_length_def)
  with white have "s \<noteq> []"
    by auto
  with white show "(drop (white_space_length (map of_char (take 3 s))) s, s) \<in> measure length"
    by simp
qed simp

text \<open>
  \<open>parseInt(s, 10)\<close>: skip leading white space, read an optional sign, read the longest
  run of decimal digits; NaN when that run is empty. What follows the digits is
  ignored.
\<close>

definition parseInt_10 :: "string \<Rightarrow> js_number" where
  "parseInt_10 s =
     (let t = trim_start s;
          negative = (take 1 t = ''-'');
          u = (if take 1 t = ''-'' \<or> take 1 t = ''+'' then drop 1 t else t);
          z = takeWhile is_digit u
      in if z = [] then NaN
         else Finite (if negative then - decimal_value z else decimal_value z))"

text \<open>\<open>a || b\<close> on a string that may be \<open>null\<close>: the empty string is falsy too.\<close>

definition or_else :: "string option \<Rightarrow> string \<Rightarrow> string" where
  "or_else a b = (case a of None \<Rightarrow> b | Some s \<Rightarrow> if s = [] then b else s)"

subsection \<open>The cache key (line 22)\<close>

definition cacheKey :: "string \<Rightarrow> string \<Rightarrow> string" where
  "cacheKey keywords cacheKeyParam = ''unsplash:'' @ keywords @ '':'' @ cacheKeyParam"

subsection \<open>Headers\<close>

text \<open>
  A \<open>Headers\<close> object, as \<open>get\<close> and \<open>set\<close> see it: header names are kept in lower
  case, each with one (combined) value.
\<close>

type_synonym Headers = "string \<rightharpoonup> string"

definition lower_char :: "char \<Rightarrow> char" where
  "lower_char c =
     (if 65 \<le> (of_char c :: nat) \<and> (of_char c :: nat) \<le> 90
      then char_of ((of_char c :: nat) + 32) else c)"

definition byte_lowercase :: "string \<Rightarrow> string" where
  "byte_lowercase n = map lower_char n"

definition Headers_get :: "Headers \<Rightarrow> string \<Rightarrow> string option" where
  "Headers_get h name = h (byte_lowercase name)"

text \<open>
  \<open>headers.set(name, value)\<close> (Fetch standard): the value loses its leading and trailing
  HTTP white space (TAB, LF, CR, SP); a value that then still holds NUL, LF or CR is
  rejected with a TypeError; otherwise the header is replaced. The names the handler
  sets are literals that are valid header names, so the check of the name is left out.
\<close>

definition http_whitespace :: "char \<Rightarrow> bool" where
  "http_whitespace c = ((of_char c :: nat) \<in> {9, 10, 13, 32})"

definition normalize_value :: "string \<Rightarrow> string" where
  "normalize_value v = rev (dropWhile http_whitespace (rev (dropWhile http_whitespace v)))"

definition header_value_ok :: "string \<Rightarrow> bool" where
  "header_value_ok v = list_all (\<lambda>c. (of_char c :: nat) \<notin> {0, 10, 13}) v"

definition Headers_set :: "Headers \<Rightarrow> string \<Rightarrow> string \<Rightarrow> js_error + Headers" where
  "Headers_set h name v =
     (if header_value_ok (normalize_value v)
      then Inr (h(byte_lowercase name \<mapsto> normalize_value v))
      else Inl (TypeError ''Invalid header value''))"

text \<open>
  Every value a \<open>Headers\<close> object holds went through \<open>set\<close> or \<open>append\<close>, so it is
  normalized and valid, and every name is in lower case.
\<close>

definition Headers_wf :: "Headers \<Rightarrow> bool" where
  "Headers_wf h =
     (\<forall>n v. h n = Some v \<longrightarrow>
        byte_lowercase n = n \<and> normalize_value v = v \<and> header_value_ok v)"

subsection \<open>Responses\<close>

record Response =
  status :: nat
  statusText :: string
  headers :: Headers
  body :: "string option"

definition ok :: "Response \<Rightarrow> bool" where
  "ok r = (200 \<le> status r \<and> status r \<le> 299)"

definition null_body_status :: "nat \<Rightarrow> bool" where
  "null_body_status s = (s \<in> {101, 103, 204, 205, 304})"

text \<open>
  A response as the runtime delivers it (Fetch standard): its headers are those of a
  \<open>Headers\<close> object, and with a null body status it has no body.
\<close>

definition Response_wf :: "Response \<Rightarrow> bool" where
  "Response_wf r =
     (Headers_wf (headers r) \<and> (null_body_status (status r) \<longrightarrow> body r = None))"

datatype BodyInit = BodyText string | BodyStream string

fun body_bytes :: "BodyInit \<Rightarrow> string" where
  "body_bytes (BodyText s) = s"
| "body_bytes (BodyStream bs) = bs"

text \<open>
  \<open>new Response(body, {status, statusText, headers})\<close> (Fetch standard, "initialize a
  response"): a status outside 200 to 599 is a RangeError; a body together with a null
  body status is a TypeError; a body given as text brings the header
  \<open>content-type: text/plain;charset=UTF-8\<close> unless the headers name a content type.
  An absent \<open>statusText\<close> is the empty string, absent \<open>headers\<close> are empty. (The
  standard also checks that the status text is a reason phrase; the only status text
  the handler passes was received with a response.)
\<close>

definition new_Response ::
    "BodyInit option \<Rightarrow> nat \<Rightarrow> string \<Rightarrow> Headers \<Rightarrow> js_error + Response" where
  "new_Response b st txt hs =
     (if st < 200 \<or> 599 < st then
        Inl (RangeError ''Responses may only be constructed with status codes in the range 200 to 599'')
      else if b \<noteq> None \<and> null_body_status st then
        Inl (TypeError ''Response with null body status cannot have a body'')
      else Inr \<lparr> status = st, statusText = txt,
                 headers = (case b of
                              Some (BodyText s) \<Rightarrow>
                                (if hs ''content-type'' = None
                                 then hs(''content-type'' \<mapsto> ''text/plain;charset=UTF-8'')
                                 else hs)
                            | _ \<Rightarrow> hs),
                 body = map_option body_bytes b \<rparr>)"

subsection \<open>encodeURIComponent\<close>

text \<open>
  Letters, digits and \<open>- _ . ! ~ * ' ( )\<close> stay; every other byte of the UTF-8 text
  becomes \<open>%XX\<close> in upper-case hexadecimal.
\<close>

definition uri_unreserved :: "char \<Rightarrow> bool" where
  "uri_unreserved c =
     (let n = (of_char c :: nat)
      in (48 \<le> n \<and> n \<le> 57) \<or> (65 \<le> n \<and> n \<le> 90) \<or> (97 \<le> n \<and> n \<le> 122)
         \<or> n \<in> {45, 95, 46, 33, 126, 42, 39, 40, 41})"

definition hex_digit :: "nat \<Rightarrow> char" where
  "hex_digit n = (if n < 10 then char_of (48 + n) else char_of (55 + n))"

definition encodeURIComponent :: "string \<Rightarrow> string" where
  "encodeURIComponent s =
     concat (map (\<lambda>c. if uri_unreserved c then [c]
                       else [CHR ''%'', hex_digit ((of_char c :: nat) div 16),
                             hex_digit ((of_char c :: nat) mod 16)]) s)"

subsection \<open>What the handler is given\<close>

text \<open>
  The request, reduced to what the handler reads of it: the pairs of
  \<open>new URL(request.url).searchParams\<close>, in order. \<open>searchParams.get\<close> gives the value
  of the first pair with the name, or \<open>null\<close>. (The URL of a request the runtime hands
  over is absolute and valid, so \<open>new URL\<close> does not throw.)
\<close>

record Request =
  searchParams :: "(string \<times> string) list"

definition searchParams_get :: "Request \<Rightarrow> string \<Rightarrow> string option" where
  "searchParams_get request name = map_of (searchParams request) name"

text \<open>
  The KV namespace bound to \<open>env.CACHE\<close>. It is an external store: for one request, the
  model is given what each call answers. \<open>get(key, {type: 'json'})\<close> throws or gives
  the parsed value, \<open>null\<close> when the key is absent; \<open>put(key, value, {expirationTtl})\<close>
  throws or completes.
\<close>

record KVNamespace =
  kv_get :: "string \<Rightarrow> js_error + jsval"
  kv_put :: "string \<Rightarrow> string \<Rightarrow> js_number \<Rightarrow> js_error + unit"

text \<open>
  Modelled from the spec: the declaration of \<open>Env\<close> (generated by
  \<open>npm run cf-typegen\<close>) is not among the sources. The specification lists the KV
  binding \<open>CACHE\<close>, the required secret \<open>UNSPLASH_ACCESS_KEY\<close> and the optional text
  \<open>CACHE_DURATION\<close>.
\<close>

record Env =
  CACHE :: KVNamespace
  UNSPLASH_ACCESS_KEY :: string
  CACHE_DURATION :: "string option"

text \<open>
  The globals of the runtime that reach outside the handler or that are not modelled
  in detail: the global \<open>fetch(url, {headers})\<close>, which throws or gives a response, and
  \<open>JSON.parse\<close> and \<open>JSON.stringify\<close>.
\<close>

record Runtime =
  global_fetch :: "string \<Rightarrow> (string \<times> string) list \<Rightarrow> js_error + Response"
  JSON_parse :: "string \<Rightarrow> js_error + jsval"
  JSON_stringify :: "jsval \<Rightarrow> string"

text \<open>\<open>response.json()\<close> parses the body; a response without a body has no text.\<close>

definition Response_json :: "Runtime \<Rightarrow> Response \<Rightarrow> js_error + jsval" where
  "Response_json rt r = JSON_parse rt (case body r of None \<Rightarrow> [] | Some bs \<Rightarrow> bs)"

subsection \<open>Calls the handler makes, and how a statement completes\<close>

datatype event =
    is_Cache_get: Cache_get string
  | is_Metadata_fetch: Metadata_fetch string "(string \<times> string) list"
  | is_Cache_put: Cache_put string string js_number
  | is_Image_fetch: Image_fetch string

datatype 'a completion = Normal 'a | Return Response | Throw js_error

type_synonym 'a effect = "'a completion \<times> event list"

definition completed :: "js_error + 'a \<Rightarrow> 'a completion" where
  "completed r = (case r of Inl e \<Rightarrow> Throw e | Inr v \<Rightarrow> Normal v)"

text \<open>An awaited call to a collaborator: the call is recorded, its outcome decides.\<close>

definition await :: "event \<Rightarrow> js_error + 'a \<Rightarrow> 'a effect" where
  "await ev r = (completed r, [ev])"

text \<open>A step inside the runtime: nothing is recorded.\<close>

definition step :: "js_error + 'a \<Rightarrow> 'a effect" where
  "step r = (completed r, [])"

text \<open>\<open>return new Response(...)\<close>: the constructor may throw before anything is returned.\<close>

definition return_new :: "js_error + Response \<Rightarrow> 'a effect" where
  "return_new r = ((case r of Inl e \<Rightarrow> Throw e | Inr resp \<Rightarrow> Return resp), [])"

text \<open>Sequencing: the rest runs only after a normal completion.\<close>

definition seq :: "'a effect \<Rightarrow> ('a \<Rightarrow> 'b effect) \<Rightarrow> 'b effect" where
  "seq m f =
     (case m of
        (Normal v, t) \<Rightarrow> (case f v of (c, t') \<Rightarrow> (c, t @ t'))
      | (Return r, t) \<Rightarrow> (Return r, t)
      | (Throw e, t) \<Rightarrow> (Throw e, t))"

text \<open>
  A chain of property reads such as \<open>unsplashData.user.links.html\<close>, left to right.
\<close>

fun member :: "jsval \<Rightarrow> string list \<Rightarrow> js_error + jsval" where
  "member v [] = Inr v"
| "member v (k # ks) = and_then (GetV v k) (\<lambda>x. member x ks)"

subsection \<open>The handler\<close>

text \<open>Lines 18, 19 and 22: the two query parameters and the key built from them.\<close>

definition keywords_of :: "Request \<Rightarrow> string" where
  "keywords_of request = or_else (searchParams_get request ''keywords'') []"

definition cacheKeyParam :: "Request \<Rightarrow> string" where
  "cacheKeyParam request = or_else (searchParams_get request ''cacheKey'') []"

definition request_cacheKey :: "Request \<Rightarrow> string" where
  "request_cacheKey request = cacheKey (keywords_of request) (cacheKeyParam request)"

text \<open>Lines 29 to 36: the request to the Unsplash API.\<close>

definition unsplashUrl :: "Request \<Rightarrow> string" where
  "unsplashUrl request =
     ''https://api.unsplash.com/photos/random?orientation=landscape&query=''
       @ encodeURIComponent (keywords_of request)"

definition unsplash_headers :: "Env \<Rightarrow> (string \<times> string) list" where
  "unsplash_headers env =
     [(''Authorization'', ''Client-ID '' @ UNSPLASH_ACCESS_KEY env),
      (''Accept-Version'', ''v1'')]"

text \<open>Line 45: \<open>env.CACHE_DURATION ? parseInt(env.CACHE_DURATION, 10) : 900\<close>.\<close>

definition cacheDuration :: "Env \<Rightarrow> js_number" where
  "cacheDuration env =
     (case CACHE_DURATION env of
        None \<Rightarrow> Finite 900
      | Some s \<Rightarrow> if s = [] then Finite 900 else parseInt_10 s)"

text \<open>
  Lines 25 to 47: the metadata, from the cache or from Unsplash. A falsy cached value
  counts as a miss. On a miss the API is asked; a response that is not \<open>ok\<close> ends the
  request (line 39); otherwise the body is parsed and written to the cache.
\<close>

definition unsplashData :: "Runtime \<Rightarrow> Request \<Rightarrow> Env \<Rightarrow> jsval effect" where
  "unsplashData rt request env =
     seq (await (Cache_get (request_cacheKey request))
            (kv_get (CACHE env) (request_cacheKey request)))
       (\<lambda>cached.
          if ToBoolean cached then (Normal cached, [])
          else
            seq (await (Metadata_fetch (unsplashUrl request) (unsplash_headers env))
                   (global_fetch rt (unsplashUrl request) (unsplash_headers env)))
              (\<lambda>unsplashResponse.
                 if \<not> ok unsplashResponse then
                   return_new (new_Response (Some (BodyText ''Error fetching image from Unsplash''))
                                 (status unsplashResponse) [] Map.empty)
                 else
                   seq (step (Response_json rt unsplashResponse))
                     (\<lambda>fetched.
                        seq (await (Cache_put (request_cacheKey request)
                                      (JSON_stringify rt fetched) (cacheDuration env))
                               (kv_put (CACHE env) (request_cacheKey request)
                                      (JSON_stringify rt fetched) (cacheDuration env)))
                          (\<lambda>_. (Normal fetched, [])))))"

text \<open>Line 50: the template literal converts \<open>unsplashData.urls.raw\<close> to a string.\<close>

definition imageUrl :: "jsval \<Rightarrow> js_error + string" where
  "imageUrl data =
     and_then (member data [''urls'', ''raw''])
       (\<lambda>raw. and_then (ToString raw) (\<lambda>s. Inr (s @ ''&fm=webp&q=80&w=1920&fit=max'')))"

text \<open>
  Lines 60 to 69: the three attribution values are read, the headers of the image
  response are copied, and four headers are set on the copy.
\<close>

definition attributed_headers :: "jsval \<Rightarrow> Headers \<Rightarrow> js_error + Headers" where
  "attributed_headers data imageHeaders =
     and_then (member data [''user'', ''name'']) (\<lambda>photographerName.
     and_then (member data [''user'', ''links'', ''html'']) (\<lambda>photographerLink.
     and_then (member data [''links'', ''html'']) (\<lambda>unsplashLink.
     and_then (Headers_set imageHeaders ''Content-Type''
                 (or_else (Headers_get imageHeaders ''Content-Type'') ''image/jpeg'')) (\<lambda>h1.
     and_then (ToString photographerName) (\<lambda>s1.
     and_then (Headers_set h1 ''X-Attribution-Photographer'' s1) (\<lambda>h2.
     and_then (ToString photographerLink) (\<lambda>s2.
     and_then (Headers_set h2 ''X-Attribution-Photographer-Link'' s2) (\<lambda>h3.
     and_then (ToString unsplashLink) (\<lambda>s3.
     Headers_set h3 ''X-Attribution-Unsplash-Link'' s3)))))))))"

text \<open>Lines 50 to 75: the image is fetched and the response is built.\<close>

definition image_stage :: "Runtime \<Rightarrow> jsval \<Rightarrow> Response effect" where
  "image_stage rt data =
     seq (step (imageUrl data))
       (\<lambda>url.
          seq (await (Image_fetch url) (global_fetch rt url []))
            (\<lambda>imageResponse.
               if \<not> ok imageResponse \<or> body imageResponse = None then
                 return_new (new_Response (Some (BodyText ''Error fetching image''))
                               (status imageResponse) [] Map.empty)
               else
                 seq (step (attributed_headers data (headers imageResponse)))
                   (\<lambda>hs. return_new (new_Response (map_option BodyStream (body imageResponse))
                                        (status imageResponse) (statusText imageResponse) hs))))"

text \<open>Lines 16 to 75, the body of \<open>try\<close>.\<close>

definition try_block :: "Runtime \<Rightarrow> Request \<Rightarrow> Env \<Rightarrow> Response effect" where
  "try_block rt request env = seq (unsplashData rt request env) (image_stage rt)"

text \<open>
  Lines 15 to 79. \<open>catch\<close> answers any exception with a new response of status 500.
  The result is the response the promise resolves to (\<open>Inl\<close> would be a rejected
  promise) and the calls made, in order. Every path through \<open>try\<close> ends in \<open>return\<close> or
  in an exception, so the first case is there for completeness only.
\<close>

definition fetch :: "Runtime \<Rightarrow> Request \<Rightarrow> Env \<Rightarrow> (js_error + Response) \<times> event list" where
  "fetch rt request env =
     (case try_block rt request env of
        (Normal r, t) \<Rightarrow> (Inr r, t)
      | (Return r, t) \<Rightarrow> (Inr r, t)
      | (Throw err, t) \<Rightarrow>
          (new_Response (Some (BodyText ''Internal Server Error'')) 500 [] Map.empty, t))"

subsection \<open>Observations of one run\<close>

text \<open>The metadata the handler holds when it reaches line 50, if it gets there.\<close>

definition metadata :: "Runtime \<Rightarrow> Request \<Rightarrow> Env \<Rightarrow> jsval option" where
  "metadata rt request env =
     (case fst (unsplashData rt request env) of Normal data \<Rightarrow> Some data | _ \<Rightarrow> None)"

text \<open>The exception that reaches \<open>catch\<close>, if one does.\<close>

definition thrown :: "Runtime \<Rightarrow> Request \<Rightarrow> Env \<Rightarrow> js_error option" where
  "thrown rt request env =
     (case fst (try_block rt request env) of Throw err \<Rightarrow> Some err | _ \<Rightarrow> None)"

text \<open>The keys of the cache operations among the calls.\<close>

fun cache_keys :: "event list \<Rightarrow> string list" where
  "cache_keys [] = []"
| "cache_keys (Cache_get k # t) = k # cache_keys t"
| "cache_keys (Cache_put k v ttl # t) = k # cache_keys t"
| "cache_keys (e # t) = cache_keys t"

text \<open>
  The store after the cache writes among the calls have taken effect, from the store
  before: each write binds its key to the value and the time to live it was given.
\<close>

fun cache_after ::
    "event list \<Rightarrow> (string \<rightharpoonup> string \<times> js_number) \<Rightarrow> (string \<rightharpoonup> string \<times> js_number)" where
  "cache_after [] store = store"
| "cache_after (Cache_put k v ttl # t) store = cache_after t (store(k \<mapsto> (v, ttl)))"
| "cache_after (e # t) store = cache_after t store"

text \<open>
  The request missed the cache, Unsplash answered with an \<open>ok\<close> response, and its body
  parsed.
\<close>

definition fetched_after_miss :: "Runtime \<Rightarrow> Request \<Rightarrow> Env \<Rightarrow> bool" where
  "fetched_after_miss rt request env =
     (case kv_get (CACHE env) (request_cacheKey request) of
        Inl e \<Rightarrow> False
      | Inr cached \<Rightarrow>
          \<not> ToBoolean cached \<and>
          (case global_fetch rt (unsplashUrl request) (unsplash_headers env) of
             Inl e \<Rightarrow> False
           | Inr r \<Rightarrow> ok r \<and> (case Response_json rt r of Inl e \<Rightarrow> False | Inr d \<Rightarrow> True)))"

text \<open>What \<open>new Response(text, {status})\<close> gives when the constructor accepts the status.\<close>

definition text_response :: "nat \<Rightarrow> string \<Rightarrow> Response" where
  "text_response st txt =
     \<lparr> status = st, statusText = [],
       headers = [''content-type'' \<mapsto> ''text/plain;charset=UTF-8''],
       body = Some txt \<rparr>"

definition response_status :: "(js_error + Response) \<times> event list \<Rightarrow> nat option" where
  "response_status out = (case fst out of Inl e \<Rightarrow> None | Inr r \<Rightarrow> Some (status r))"

definition response_header ::
    "string \<Rightarrow> (js_error + Response) \<times> event list \<Rightarrow> string option" where
  "response_header name out =
     (case fst out of Inl e \<Rightarrow> None | Inr r \<Rightarrow> Headers_get (headers r) name)"

subsection \<open>Example runs\<close>

definition example_photo :: jsval where
  "example_photo =
     JObject
       [(''urls'', JObject [(''raw'', JString ''https://images.unsplash.com/photo-1?ixid=2'')]),
        (''user'', JObject [(''name'', JString ''Ansel Adams''),
                           (''links'', JObject [(''html'', JString ''https://unsplash.com/@ansel'')])]),
        (''links'', JObject [(''html'', JString ''https://unsplash.com/photos/1'')])]"

definition example_image_url :: string where
  "example_image_url = ''https://images.unsplash.com/photo-1?ixid=2&fm=webp&q=80&w=1920&fit=max''"

definition example_image :: Response where
  "example_image =
     \<lparr> status = 200, statusText = ''OK'',
       headers = [''content-type'' \<mapsto> ''image/webp'', ''etag'' \<mapsto> ''abc''],
       body = Some ''RIFF....WEBP'' \<rparr>"

text \<open>A network on which Unsplash answers with \<open>api\<close> and the image origin with \<open>img\<close>.\<close>

definition example_runtime :: "Response \<Rightarrow> Response \<Rightarrow> Runtime" where
  "example_runtime api img =
     \<lparr> global_fetch = (\<lambda>url hs. if url = example_image_url then Inr img else Inr api),
       JSON_parse = (\<lambda>s. if s = ''photo.json'' then Inr example_photo
                          else Inl (SyntaxError ''Unexpected token'')),
       JSON_stringify = (\<lambda>v. if v = example_photo then ''photo.json'' else ''null'') \<rparr>"

definition example_api_response :: Response where
  "example_api_response =
     \<lparr> status = 200, statusText = ''OK'',
       headers = [''content-type'' \<mapsto> ''application/json''],
       body = Some ''photo.json'' \<rparr>"

definition empty_cache :: KVNamespace where
  "empty_cache = \<lparr> kv_get = (\<lambda>k. Inr JNull), kv_put = (\<lambda>k v ttl. Inr ()) \<rparr>"

definition warm_cache :: KVNamespace where
  "warm_cache = \<lparr> kv_get = (\<lambda>k. Inr example_photo), kv_put = (\<lambda>k v ttl. Inr ()) \<rparr>"

definition cache_holding :: "jsval \<Rightarrow> KVNamespace" where
  "cache_holding v = \<lparr> kv_get = (\<lambda>k. Inr v), kv_put = (\<lambda>k v ttl. Inr ()) \<rparr>"

definition broken_cache :: KVNamespace where
  "broken_cache =
     \<lparr> kv_get = (\<lambda>k. Inl (OtherError ''KV GET failed: 500 Internal Server Error'')),
       kv_put = (\<lambda>k v ttl. Inr ()) \<rparr>"

definition example_env :: "KVNamespace \<Rightarrow> string option \<Rightarrow> Env" where
  "example_env kv duration =
     \<lparr> CACHE = kv, UNSPLASH_ACCESS_KEY = ''access-key'', CACHE_DURATION = duration \<rparr>"

definition example_request :: Request where
  "example_request = \<lparr> searchParams = [(''keywords'', ''sea'')] \<rparr>"

text \<open>
  Metadata for the corner cases: a photographer's name that ends in a space, and one
  with a line feed inside.
\<close>

definition padded_photo :: jsval where
  "padded_photo =
     JObject
       [(''urls'', JObject [(''raw'', JString ''https://images.unsplash.com/photo-1?ixid=2'')]),
        (''user'', JObject [(''name'', JString ''Ansel Adams ''),
                           (''links'', JObject [(''html'', JString ''https://unsplash.com/@ansel'')])]),
        (''links'', JObject [(''html'', JString ''https://unsplash.com/photos/1'')])]"

definition split_photo :: jsval where
  "split_photo =
     JObject
       [(''urls'', JObject [(''raw'', JString ''https://images.unsplash.com/photo-1?ixid=2'')]),
        (''user'', JObject [(''name'', JString [CHR ''A'', CHR 0x0A, CHR ''A'']),
                           (''links'', JObject [(''html'', JString ''https://unsplash.com/@ansel'')])]),
        (''links'', JObject [(''html'', JString ''https://unsplash.com/photos/1'')])]"






definition untyped_image :: Response where
  "untyped_image =
     \<lparr> status = 200, statusText = ''OK'', headers = [''content-type'' \<mapsto> []],
       body = Some ''RIFF....WEBP'' \<rparr>"

section \<open>Properties\<close>

subsection \<open>Sequencing\<close>

lemma seq_await_Inr: "seq (await ev (Inr v)) f = (fst (f v), ev # snd (f v))"
  by (simp add: seq_def await_def completed_def split: prod.splits)

lemma seq_await_Inl: "seq (await ev (Inl e)) f = (Throw e, [ev])"
  by (simp add: seq_def await_def completed_def)

lemma seq_step_Inr: "seq (step (Inr v)) f = f v"
  by (simp add: seq_def step_def completed_def split: prod.splits)

lemma seq_step_Inl: "seq (step (Inl e)) f = (Throw e, [])"
  by (simp add: seq_def step_def completed_def)

lemma seq_Normal: "seq (Normal v, t) f = (fst (f v), t @ snd (f v))"
  by (simp add: seq_def split: prod.splits)

lemma seq_Return: "seq (Return r, t) f = (Return r, t)"
  by (simp add: seq_def)

lemma seq_Throw: "seq (Throw e, t) f = (Throw e, t)"
  by (simp add: seq_def)

lemma seq_await:
  "seq (await ev r) f =
     (case r of Inl e \<Rightarrow> (Throw e, [ev]) | Inr v \<Rightarrow> (fst (f v), ev # snd (f v)))"
  by (simp add: seq_def await_def completed_def split: prod.splits sum.splits)

lemma seq_step:
  "seq (step r) f = (case r of Inl e \<Rightarrow> (Throw e, []) | Inr v \<Rightarrow> f v)"
  by (simp add: seq_def step_def completed_def split: prod.splits sum.splits)

lemmas seq_simps = seq_await_Inr seq_await_Inl seq_step_Inr seq_step_Inl seq_Normal seq_Return seq_Throw

lemma return_new_Inr: "return_new (Inr r) = (Return r, [])"
  by (simp add: return_new_def)


subsection \<open>The response constructor\<close>


lemma new_Response_500:
  "new_Response (Some (BodyText txt)) 500 [] Map.empty = Inr (text_response 500 txt)"
  by (simp add: new_Response_def text_response_def null_body_status_def)

lemma new_Response_stream:
  "200 \<le> st \<Longrightarrow> st \<le> 599 \<Longrightarrow> \<not> null_body_status st \<Longrightarrow>
   new_Response (Some (BodyStream bs)) st txt hs =
     Inr \<lparr> status = st, statusText = txt, headers = hs, body = Some bs \<rparr>"
  by (simp add: new_Response_def)

lemma new_Response_out_of_range:
  "st < 200 \<or> 599 < st \<Longrightarrow> \<exists>e. new_Response b st txt hs = Inl e"
  by (auto simp add: new_Response_def)

lemma new_Response_null_body:
  "null_body_status st \<Longrightarrow> \<exists>e. new_Response (Some b) st txt hs = Inl e"
  by (simp add: new_Response_def)

subsection \<open>The metadata stage, case by case\<close>


lemma unsplashData_hit:
  "kv_get (CACHE env) (request_cacheKey request) = Inr cached \<Longrightarrow> ToBoolean cached \<Longrightarrow>
   unsplashData rt request env = (Normal cached, [Cache_get (request_cacheKey request)])"
  by (simp add: unsplashData_def seq_simps)

lemma unsplashData_fetch_throws:
  "kv_get (CACHE env) (request_cacheKey request) = Inr cached \<Longrightarrow> \<not> ToBoolean cached \<Longrightarrow>
   global_fetch rt (unsplashUrl request) (unsplash_headers env) = Inl e \<Longrightarrow>
   unsplashData rt request env =
     (Throw e, [Cache_get (request_cacheKey request),
                Metadata_fetch (unsplashUrl request) (unsplash_headers env)])"
  by (simp add: unsplashData_def seq_simps)


lemma unsplashData_json_throws:
  "kv_get (CACHE env) (request_cacheKey request) = Inr cached \<Longrightarrow> \<not> ToBoolean cached \<Longrightarrow>
   global_fetch rt (unsplashUrl request) (unsplash_headers env) = Inr r \<Longrightarrow> ok r \<Longrightarrow>
   Response_json rt r = Inl e \<Longrightarrow>
   unsplashData rt request env =
     (Throw e, [Cache_get (request_cacheKey request),
                Metadata_fetch (unsplashUrl request) (unsplash_headers env)])"
  by (simp add: unsplashData_def seq_simps)

lemma unsplashData_stored:
  "kv_get (CACHE env) (request_cacheKey request) = Inr cached \<Longrightarrow> \<not> ToBoolean cached \<Longrightarrow>
   global_fetch rt (unsplashUrl request) (unsplash_headers env) = Inr r \<Longrightarrow> ok r \<Longrightarrow>
   Response_json rt r = Inr fetched \<Longrightarrow>
   unsplashData rt request env =
     ((case kv_put (CACHE env) (request_cacheKey request) (JSON_stringify rt fetched) (cacheDuration env) of
         Inl e \<Rightarrow> Throw e | Inr u \<Rightarrow> Normal fetched),
      [Cache_get (request_cacheKey request),
       Metadata_fetch (unsplashUrl request) (unsplash_headers env),
       Cache_put (request_cacheKey request) (JSON_stringify rt fetched) (cacheDuration env)])"
  by (simp add: unsplashData_def seq_simps split: sum.splits)

text \<open>The calls of the metadata stage, whatever happens.\<close>

lemma unsplashData_calls:
  "snd (unsplashData rt request env) =
     Cache_get (request_cacheKey request) #
     (case kv_get (CACHE env) (request_cacheKey request) of
        Inl e \<Rightarrow> []
      | Inr cached \<Rightarrow>
          if ToBoolean cached then []
          else Metadata_fetch (unsplashUrl request) (unsplash_headers env) #
            (case global_fetch rt (unsplashUrl request) (unsplash_headers env) of
               Inl e \<Rightarrow> []
             | Inr r \<Rightarrow>
                 if \<not> ok r then []
                 else (case Response_json rt r of
                         Inl e \<Rightarrow> []
                       | Inr d \<Rightarrow> [Cache_put (request_cacheKey request) (JSON_stringify rt d)
                                     (cacheDuration env)])))"
  by (simp add: unsplashData_def seq_await seq_step return_new_def split: sum.splits)

subsection \<open>The calls of the image stage, and both stages together\<close>

lemma image_stage_calls:
  "snd (image_stage rt data) =
     (case imageUrl data of Inl e \<Rightarrow> [] | Inr url \<Rightarrow> [Image_fetch url])"
  by (simp add: image_stage_def seq_await seq_step return_new_def split: sum.splits)

lemma image_stage_not_Normal: "fst (image_stage rt data) \<noteq> Normal r"
  by (simp add: image_stage_def seq_await seq_step return_new_def split: sum.splits)

lemma try_block_metadata:
  "metadata rt request env = Some data \<Longrightarrow>
   try_block rt request env =
     (fst (image_stage rt data), snd (unsplashData rt request env) @ snd (image_stage rt data))"
  by (cases "unsplashData rt request env")
     (auto simp: metadata_def try_block_def seq_simps split: completion.splits)


lemma try_block_early_throw:
  "fst (unsplashData rt request env) = Throw e \<Longrightarrow>
   try_block rt request env = (Throw e, snd (unsplashData rt request env))"
  by (cases "unsplashData rt request env") (simp add: try_block_def seq_simps)

lemma snd_fetch: "snd (fetch rt request env) = snd (try_block rt request env)"
  by (simp add: fetch_def split: prod.splits completion.splits)

lemma try_block_calls:
  "snd (try_block rt request env) =
     snd (unsplashData rt request env) @
     (case metadata rt request env of None \<Rightarrow> [] | Some d \<Rightarrow> snd (image_stage rt d))"
  by (cases "unsplashData rt request env")
     (auto simp: metadata_def try_block_def seq_simps split: completion.splits)

lemma fetch_calls:
  "snd (fetch rt request env) =
     snd (unsplashData rt request env) @
     (case metadata rt request env of
        None \<Rightarrow> []
      | Some d \<Rightarrow> (case imageUrl d of Inl e \<Rightarrow> [] | Inr url \<Rightarrow> [Image_fetch url]))"
  by (simp add: snd_fetch try_block_calls image_stage_calls split: option.splits)

lemma fetch_thrown:
  "thrown rt request env = Some err \<Longrightarrow>
   fst (fetch rt request env) = Inr (text_response 500 ''Internal Server Error'')"
  by (cases "try_block rt request env")
     (auto simp: thrown_def fetch_def new_Response_500 split: completion.splits)

lemma fetch_returned:
  "fst (try_block rt request env) = Return r \<Longrightarrow> fst (fetch rt request env) = Inr r"
  by (cases "try_block rt request env") (auto simp: fetch_def)

lemma fetch_never_rejects: "\<exists>r. fst (fetch rt request env) = Inr r"
  by (cases "try_block rt request env")
     (auto simp: fetch_def new_Response_500 split: completion.splits)

subsection \<open>When the handler holds metadata\<close>

lemma metadata_cache_hit:
  "kv_get (CACHE env) (request_cacheKey request) = Inr cached \<Longrightarrow> ToBoolean cached \<Longrightarrow>
   metadata rt request env = Some cached"
  by (simp add: metadata_def unsplashData_hit)

lemma metadata_fetched:
  "kv_get (CACHE env) (request_cacheKey request) = Inr cached \<Longrightarrow> \<not> ToBoolean cached \<Longrightarrow>
   global_fetch rt (unsplashUrl request) (unsplash_headers env) = Inr r \<Longrightarrow> ok r \<Longrightarrow>
   Response_json rt r = Inr fetched \<Longrightarrow>
   kv_put (CACHE env) (request_cacheKey request) (JSON_stringify rt fetched) (cacheDuration env) = Inr u \<Longrightarrow>
   metadata rt request env = Some fetched"
  by (simp add: metadata_def unsplashData_stored)

text \<open>When the handler holds metadata at line 50: after a hit, or after a miss that was
  fetched, parsed and stored.\<close>

lemma metadata_available_iff:
  "metadata rt request env = Some data \<longleftrightarrow>
     (case kv_get (CACHE env) (request_cacheKey request) of
        Inl e \<Rightarrow> False
      | Inr cached \<Rightarrow>
          if ToBoolean cached then cached = data
          else (case global_fetch rt (unsplashUrl request) (unsplash_headers env) of
                  Inl e \<Rightarrow> False
                | Inr r \<Rightarrow>
                    ok r \<and> Response_json rt r = Inr data \<and>
                    (\<exists>u. kv_put (CACHE env) (request_cacheKey request)
                            (JSON_stringify rt data) (cacheDuration env) = Inr u)))"
  by (auto simp: metadata_def unsplashData_def seq_await seq_step return_new_def
        split: sum.splits)

subsection \<open>The calls of a request, by kind\<close>

lemma cache_after_no_put: "filter is_Cache_put t = [] \<Longrightarrow> cache_after t store = store"
  by (induction t store rule: cache_after.induct) simp_all

lemma cache_writes:
  "filter is_Cache_put (snd (fetch rt request env)) =
     (case kv_get (CACHE env) (request_cacheKey request) of
        Inl e \<Rightarrow> []
      | Inr cached \<Rightarrow>
          if ToBoolean cached then []
          else (case global_fetch rt (unsplashUrl request) (unsplash_headers env) of
                  Inl e \<Rightarrow> []
                | Inr r \<Rightarrow>
                    if \<not> ok r then []
                    else (case Response_json rt r of
                            Inl e \<Rightarrow> []
                          | Inr d \<Rightarrow> [Cache_put (request_cacheKey request) (JSON_stringify rt d)
                                        (cacheDuration env)])))"
  by (simp add: fetch_calls unsplashData_calls split: sum.splits option.splits)

lemma metadata_fetches:
  "filter is_Metadata_fetch (snd (fetch rt request env)) =
     (case kv_get (CACHE env) (request_cacheKey request) of
        Inl e \<Rightarrow> []
      | Inr cached \<Rightarrow>
          if ToBoolean cached then []
          else [Metadata_fetch (unsplashUrl request) (unsplash_headers env)])"
  by (simp add: fetch_calls unsplashData_calls split: sum.splits option.splits)

lemma image_fetches:
  "filter is_Image_fetch (snd (fetch rt request env)) =
     (case metadata rt request env of
        None \<Rightarrow> []
      | Some d \<Rightarrow> (case imageUrl d of Inl e \<Rightarrow> [] | Inr url \<Rightarrow> [Image_fetch url]))"
  by (simp add: fetch_calls unsplashData_calls split: sum.splits option.splits)

lemma cache_keys_fetch:
  "cache_keys (snd (fetch rt request env)) =
     request_cacheKey request #
     (if filter is_Cache_put (snd (fetch rt request env)) = [] then [] else [request_cacheKey request])"
  by (simp add: cache_writes, simp add: fetch_calls unsplashData_calls split: sum.splits option.splits)

subsection \<open>Exceptions reach the handler's catch\<close>


lemma thrown_early:
  "fst (unsplashData rt request env) = Throw e \<Longrightarrow> thrown rt request env = Some e"
  by (simp add: thrown_def try_block_early_throw)

lemma thrown_late:
  "metadata rt request env = Some data \<Longrightarrow> fst (image_stage rt data) = Throw e \<Longrightarrow>
   thrown rt request env = Some e"
  by (simp add: thrown_def try_block_metadata)


lemma provider_network_error_thrown:
  "kv_get (CACHE env) (request_cacheKey request) = Inr cached \<Longrightarrow> \<not> ToBoolean cached \<Longrightarrow>
   global_fetch rt (unsplashUrl request) (unsplash_headers env) = Inl e \<Longrightarrow>
   thrown rt request env = Some e"
  by (simp add: thrown_early unsplashData_fetch_throws)

lemma json_parse_error_thrown:
  "kv_get (CACHE env) (request_cacheKey request) = Inr cached \<Longrightarrow> \<not> ToBoolean cached \<Longrightarrow>
   global_fetch rt (unsplashUrl request) (unsplash_headers env) = Inr r \<Longrightarrow> ok r \<Longrightarrow>
   Response_json rt r = Inl e \<Longrightarrow>
   thrown rt request env = Some e"
  by (simp add: thrown_early unsplashData_json_throws)

lemma cache_put_failure_thrown:
  "kv_get (CACHE env) (request_cacheKey request) = Inr cached \<Longrightarrow> \<not> ToBoolean cached \<Longrightarrow>
   global_fetch rt (unsplashUrl request) (unsplash_headers env) = Inr r \<Longrightarrow> ok r \<Longrightarrow>
   Response_json rt r = Inr fetched \<Longrightarrow>
   kv_put (CACHE env) (request_cacheKey request) (JSON_stringify rt fetched) (cacheDuration env) = Inl e \<Longrightarrow>
   thrown rt request env = Some e"
  by (simp add: thrown_early unsplashData_stored)

lemma missing_urls_thrown:
  "metadata rt request env = Some (JObject kvs) \<Longrightarrow> map_of kvs ''urls'' = None \<Longrightarrow>
   \<exists>e. thrown rt request env = Some e"
  by (rule exI, rule thrown_late, assumption)
     (simp add: image_stage_def imageUrl_def and_then_def seq_step)

lemma image_network_error_thrown:
  "metadata rt request env = Some data \<Longrightarrow> imageUrl data = Inr url \<Longrightarrow>
   global_fetch rt url [] = Inl e \<Longrightarrow> thrown rt request env = Some e"
  by (rule thrown_late, assumption) (simp add: image_stage_def seq_simps)


subsection \<open>The image stage\<close>

lemma header_names_lowercase:
  "byte_lowercase ''Content-Type'' = ''content-type''"
  "byte_lowercase ''X-Attribution-Photographer'' = ''x-attribution-photographer''"
  "byte_lowercase ''X-Attribution-Photographer-Link'' = ''x-attribution-photographer-link''"
  "byte_lowercase ''X-Attribution-Unsplash-Link'' = ''x-attribution-unsplash-link''"
  by code_simp+

lemma Headers_set_accepts:
  "header_value_ok (normalize_value v) \<Longrightarrow>
   Headers_set h name v = Inr (h(byte_lowercase name \<mapsto> normalize_value v))"
  by (simp add: Headers_set_def)

lemma Headers_set_rejects:
  "\<not> header_value_ok (normalize_value v) \<Longrightarrow> \<exists>e. Headers_set h name v = Inl e"
  by (simp add: Headers_set_def)

lemma image_jpeg_ok:
  "normalize_value ''image/jpeg'' = ''image/jpeg''" "header_value_ok ''image/jpeg''"
  by (simp_all add: normalize_value_def http_whitespace_def header_value_ok_def)

lemma content_type_choice:
  assumes "Headers_wf h"
  shows "normalize_value (or_else (Headers_get h name) ''image/jpeg'')
           = or_else (Headers_get h name) ''image/jpeg''"
    and "header_value_ok (or_else (Headers_get h name) ''image/jpeg'')"
  using assms
  by (auto simp: Headers_wf_def Headers_get_def or_else_def image_jpeg_ok split: option.splits)

lemma attributed_headers_strings:
  assumes "Headers_wf h"
      and "member data [''user'', ''name''] = Inr (JString photographerName)"
      and "member data [''user'', ''links'', ''html''] = Inr (JString photographerLink)"
      and "member data [''links'', ''html''] = Inr (JString unsplashLink)"
      and "header_value_ok (normalize_value photographerName)"
      and "header_value_ok (normalize_value photographerLink)"
      and "header_value_ok (normalize_value unsplashLink)"
  shows "attributed_headers data h =
           Inr (h(''content-type'' \<mapsto> or_else (Headers_get h ''Content-Type'') ''image/jpeg'',
                  ''x-attribution-photographer'' \<mapsto> normalize_value photographerName,
                  ''x-attribution-photographer-link'' \<mapsto> normalize_value photographerLink,
                  ''x-attribution-unsplash-link'' \<mapsto> normalize_value unsplashLink))"
proof -
  have ct: "Headers_set h ''Content-Type'' (or_else (Headers_get h ''Content-Type'') ''image/jpeg'')
              = Inr (h(''content-type'' \<mapsto> or_else (Headers_get h ''Content-Type'') ''image/jpeg''))"
    using content_type_choice [OF assms(1), of "''Content-Type''"]
    by (simp add: Headers_set_def header_names_lowercase)
  show ?thesis
    unfolding attributed_headers_def
    by (simp only: assms(2-4) ct and_then_def sum.case ToString.simps
          Headers_set_accepts [OF assms(5)] Headers_set_accepts [OF assms(6)]
          Headers_set_accepts [OF assms(7)] header_names_lowercase)
qed

lemma image_stage_success:
  assumes "imageUrl data = Inr url"
      and "global_fetch rt url [] = Inr img"
      and "ok img"
      and "body img = Some bytes"
      and "\<not> null_body_status (status img)"
      and "attributed_headers data (headers img) = Inr hs"
  shows "image_stage rt data =
           (Return \<lparr> status = status img, statusText = statusText img, headers = hs,
                     body = Some bytes \<rparr>, [Image_fetch url])"
proof -
  have "200 \<le> status img" and "status img \<le> 599"
    using assms(3) by (simp_all add: ok_def)
  then have "new_Response (Some (BodyStream bytes)) (status img) (statusText img) hs =
               Inr \<lparr> status = status img, statusText = statusText img, headers = hs,
                     body = Some bytes \<rparr>"
    using assms(5) by (rule new_Response_stream)
  then show ?thesis
    using assms(1-4,6) by (simp add: image_stage_def seq_simps return_new_Inr)
qed


lemma invalid_name_thrown:
  assumes "metadata rt request env = Some data"
      and "imageUrl data = Inr url"
      and "global_fetch rt url [] = Inr img"
      and "ok img" and "body img = Some bytes"
      and "Headers_wf (headers img)"
      and "member data [''user'', ''name''] = Inr (JString photographerName)"
      and "member data [''user'', ''links'', ''html''] = Inr photographerLink"
      and "member data [''links'', ''html''] = Inr unsplashLink"
      and "\<not> header_value_ok (normalize_value photographerName)"
  shows "\<exists>e. thrown rt request env = Some e"
proof -
  have ct: "Headers_set (headers img) ''Content-Type''
              (or_else (Headers_get (headers img) ''Content-Type'') ''image/jpeg'')
              = Inr ((headers img)
                  (''content-type'' \<mapsto> or_else (Headers_get (headers img) ''Content-Type'') ''image/jpeg''))"
    using content_type_choice [OF assms(6), of "''Content-Type''"]
    by (simp add: Headers_set_def header_names_lowercase)
  have "\<exists>e. attributed_headers data (headers img) = Inl e"
    unfolding attributed_headers_def
    by (simp only: assms(7-9) ct and_then_def sum.case ToString.simps)
       (simp add: Headers_set_def assms(10))
  then obtain e where "attributed_headers data (headers img) = Inl e" ..
  then have "fst (image_stage rt data) = Throw e"
    using assms(2-5) by (simp add: image_stage_def seq_simps)
  with assms(1) show ?thesis
    by (blast dest: thrown_late)
qed

lemma fetch_with_metadata:
  "metadata rt request env = Some data \<Longrightarrow> fst (image_stage rt data) = Return r \<Longrightarrow>
   fst (fetch rt request env) = Inr r"
  by (simp add: fetch_returned try_block_metadata)


lemma missing_user_thrown:
  "metadata rt request env = Some (JObject kvs) \<Longrightarrow> imageUrl (JObject kvs) = Inr url \<Longrightarrow>
   global_fetch rt url [] = Inr img \<Longrightarrow> ok img \<Longrightarrow> body img = Some bytes \<Longrightarrow>
   map_of kvs ''user'' = None \<Longrightarrow>
   \<exists>e. thrown rt request env = Some e"
  by (rule exI, rule thrown_late, assumption)
     (simp add: image_stage_def attributed_headers_def and_then_def seq_simps)

subsection \<open>The example runs, evaluated\<close>

lemma example_key: "request_cacheKey example_request = ''unsplash:sea:''"
  by (simp add: request_cacheKey_def cacheKey_def keywords_of_def cacheKeyParam_def
        searchParams_get_def or_else_def example_request_def)

lemma example_unsplashUrl:
  "unsplashUrl example_request =
     ''https://api.unsplash.com/photos/random?orientation=landscape&query=sea''"
  by (simp add: unsplashUrl_def keywords_of_def searchParams_get_def or_else_def
        example_request_def encodeURIComponent_def uri_unreserved_def)

lemma example_imageUrl: "imageUrl example_photo = Inr example_image_url"
  by (simp add: imageUrl_def and_then_def example_photo_def example_image_url_def)

lemma example_members:
  "member example_photo [''user'', ''name''] = Inr (JString ''Ansel Adams'')"
  "member example_photo [''user'', ''links'', ''html''] = Inr (JString ''https://unsplash.com/@ansel'')"
  "member example_photo [''links'', ''html''] = Inr (JString ''https://unsplash.com/photos/1'')"
  "member example_photo [''urls'', ''raw''] = Inr (JString ''https://images.unsplash.com/photo-1?ixid=2'')"
  by (simp_all add: and_then_def example_photo_def)

lemma example_fetch_api:
  "global_fetch (example_runtime api img) (unsplashUrl example_request) hs = Inr api"
  by (simp add: example_unsplashUrl example_runtime_def example_image_url_def)

lemma example_fetch_image:
  "global_fetch (example_runtime api img) example_image_url hs = Inr img"
  by (simp add: example_runtime_def)

lemma example_cache_facts:
  "kv_get (CACHE (example_env warm_cache d)) k = Inr example_photo"
  "kv_get (CACHE (example_env empty_cache d)) k = Inr JNull"
  "kv_get (CACHE (example_env broken_cache d)) k = Inl (OtherError ''KV GET failed: 500 Internal Server Error'')"
  "kv_put (CACHE (example_env empty_cache d)) k v ttl = Inr ()"
  "ToBoolean example_photo" "\<not> ToBoolean JNull"
  "CACHE_DURATION (example_env kv d) = d"
  by (simp_all add: example_env_def warm_cache_def empty_cache_def broken_cache_def example_photo_def)

lemma example_api_facts:
  "ok example_api_response"
  "Response_json (example_runtime api img) example_api_response = Inr example_photo"
  "JSON_stringify (example_runtime api img) example_photo = ''photo.json''"
  by (simp_all add: example_api_response_def ok_def Response_json_def example_runtime_def)

lemma example_metadata_warm:
  "metadata rt example_request (example_env warm_cache d) = Some example_photo"
  by (rule metadata_cache_hit [where cached = example_photo])
     (simp_all add: example_env_def warm_cache_def example_photo_def)

lemma example_metadata_fetched:
  "metadata (example_runtime example_api_response img) example_request (example_env empty_cache d)
     = Some example_photo"
  by (rule metadata_fetched [where cached = JNull and r = example_api_response and u = "()"])
     (simp_all add: example_fetch_api, simp_all add: example_env_def empty_cache_def example_api_response_def ok_def Response_json_def example_runtime_def)

lemma example_image_facts:
  "ok example_image" "body example_image = Some ''RIFF....WEBP''"
  "\<not> null_body_status (status example_image)" "Headers_wf (headers example_image)"
  by (auto simp: example_image_def ok_def null_body_status_def Headers_wf_def
        byte_lowercase_def lower_char_def normalize_value_def http_whitespace_def
        header_value_ok_def split: if_splits)

lemma example_values_ok:
  "normalize_value ''Ansel Adams'' = ''Ansel Adams''"
  "normalize_value ''https://unsplash.com/@ansel'' = ''https://unsplash.com/@ansel''"
  "normalize_value ''https://unsplash.com/photos/1'' = ''https://unsplash.com/photos/1''"
  "header_value_ok ''Ansel Adams''"
  "header_value_ok ''https://unsplash.com/@ansel''"
  "header_value_ok ''https://unsplash.com/photos/1''"
  by (simp_all add: normalize_value_def http_whitespace_def header_value_ok_def)

lemma example_image_wf: "Response_wf example_image"
  using example_image_facts by (simp add: Response_wf_def)

lemma cache_holding_facts:
  "kv_get (CACHE (example_env (cache_holding v) d)) k = Inr v"
  by (simp add: example_env_def cache_holding_def)

lemma padded_photo_facts:
  "ToBoolean padded_photo"
  "imageUrl padded_photo = Inr example_image_url"
  "member padded_photo [''user'', ''name''] = Inr (JString ''Ansel Adams '')"
  "member padded_photo [''user'', ''links'', ''html''] = Inr (JString ''https://unsplash.com/@ansel'')"
  "member padded_photo [''links'', ''html''] = Inr (JString ''https://unsplash.com/photos/1'')"
  "normalize_value ''Ansel Adams '' = ''Ansel Adams''"
  by (simp_all add: padded_photo_def imageUrl_def and_then_def example_image_url_def
        normalize_value_def http_whitespace_def)

lemma split_photo_facts:
  "ToBoolean split_photo"
  "imageUrl split_photo = Inr example_image_url"
  "member split_photo [''user'', ''name''] = Inr (JString [CHR ''A'', CHR 0x0A, CHR ''A''])"
  "\<not> header_value_ok (normalize_value [CHR ''A'', CHR 0x0A, CHR ''A''])"
  by (simp_all add: split_photo_def imageUrl_def and_then_def example_image_url_def
        normalize_value_def http_whitespace_def header_value_ok_def)

lemma untyped_image_facts:
  "ok untyped_image" "body untyped_image = Some ''RIFF....WEBP''"
  "\<not> null_body_status (status untyped_image)"
  "Headers_wf (headers untyped_image)"
  "Headers_get (headers untyped_image) ''Content-Type'' = Some []"
  "status untyped_image = 200"
proof -
  show "Headers_wf (headers untyped_image)"
    by (auto simp: untyped_image_def Headers_wf_def byte_lowercase_def lower_char_def
          normalize_value_def header_value_ok_def split: if_splits)
  show "Headers_get (headers untyped_image) ''Content-Type'' = Some []"
    by (simp add: untyped_image_def Headers_get_def header_names_lowercase)
qed (simp_all add: untyped_image_def ok_def null_body_status_def)




section \<open>The claims of the specification\<close>

subsection \<open>C1: the response on full success\<close>

text \<open>
  Claim C1, amended. Let the metadata be available (from the cache, or fetched, parsed
  and stored), let its \<open>urls.raw\<close> give the image URL, and let the image fetch return
  a response as the runtime delivers it that is \<open>ok\<close> and has a body. Let \<open>user.name\<close>,
  \<open>user.links.html\<close> and \<open>links.html\<close> be strings that hold no NUL, LF or CR once their
  leading and trailing HTTP white space is removed. Then the handler answers with the
  status and the status text of the image response, with its body, and with its
  headers, in which \<open>Content-Type\<close> is the image response's own \<open>Content-Type\<close>, or
  \<open>image/jpeg\<close> when that header is absent or empty, and in which the three
  \<open>X-Attribution-*\<close> headers are the three strings without their leading and trailing
  HTTP white space (so verbatim when they have none).
\<close>

theorem image_with_attribution:
  assumes "metadata rt request env = Some data"
      and "imageUrl data = Inr url"
      and "global_fetch rt url [] = Inr img"
      and "Response_wf img"
      and "ok img"
      and "body img = Some bytes"
      and "member data [''user'', ''name''] = Inr (JString photographerName)"
      and "member data [''user'', ''links'', ''html''] = Inr (JString photographerLink)"
      and "member data [''links'', ''html''] = Inr (JString unsplashLink)"
      and "header_value_ok (normalize_value photographerName)"
      and "header_value_ok (normalize_value photographerLink)"
      and "header_value_ok (normalize_value unsplashLink)"
  shows "fst (fetch rt request env) =
           Inr \<lparr> status = status img, statusText = statusText img,
                 headers = (headers img)
                   (''content-type'' \<mapsto>
                      or_else (Headers_get (headers img) ''Content-Type'') ''image/jpeg'',
                    ''x-attribution-photographer'' \<mapsto> normalize_value photographerName,
                    ''x-attribution-photographer-link'' \<mapsto> normalize_value photographerLink,
                    ''x-attribution-unsplash-link'' \<mapsto> normalize_value unsplashLink),
                 body = Some bytes \<rparr>"
proof -
  have wf: "Headers_wf (headers img)" and status: "\<not> null_body_status (status img)"
    using assms(4,6) by (auto simp: Response_wf_def)
  note hs = attributed_headers_strings [OF wf assms(7-12)]
  note resp = image_stage_success [OF assms(2,3,5,6) status hs]
  show ?thesis
    by (rule fetch_with_metadata [OF assms(1)]) (simp add: resp)
qed

text \<open>
  C1 at the example run: the cache is empty, Unsplash answers with the example photo, the
  image origin with a WebP image that also carries an \<open>ETag\<close> header.
\<close>

theorem image_with_attribution_witness:
  "response_status
     (fetch (example_runtime example_api_response example_image) example_request
        (example_env empty_cache None)) = Some 200 \<and>
   response_header ''Content-Type''
     (fetch (example_runtime example_api_response example_image) example_request
        (example_env empty_cache None)) = Some ''image/webp'' \<and>
   response_header ''ETag''
     (fetch (example_runtime example_api_response example_image) example_request
        (example_env empty_cache None)) = Some ''abc'' \<and>
   response_header ''X-Attribution-Photographer''
     (fetch (example_runtime example_api_response example_image) example_request
        (example_env empty_cache None)) = Some ''Ansel Adams'' \<and>
   response_header ''X-Attribution-Photographer-Link''
     (fetch (example_runtime example_api_response example_image) example_request
        (example_env empty_cache None)) = Some ''https://unsplash.com/@ansel'' \<and>
   response_header ''X-Attribution-Unsplash-Link''
     (fetch (example_runtime example_api_response example_image) example_request
        (example_env empty_cache None)) = Some ''https://unsplash.com/photos/1''"
proof -
  have etag: "byte_lowercase ''ETag'' = ''etag''"
    by code_simp
  show ?thesis
    using image_with_attribution
        [where rt = "example_runtime example_api_response example_image"
           and request = example_request and env = "example_env empty_cache None"
           and img = example_image,
         OF example_metadata_fetched example_imageUrl example_fetch_image
            example_image_wf example_image_facts(1,2) example_members(1-3)]
    by (simp add: example_values_ok response_status_def response_header_def Headers_get_def
          header_names_lowercase etag or_else_def example_image_def)
qed

text \<open>
  C1 as stated fails in three ways, shown on two runs with cached metadata and an \<open>ok\<close>
  image response that has a body. The image response has a \<open>Content-Type\<close> header whose
  value is empty: the header is not absent, and line 66
  (\<open>get('Content-Type') || 'image/jpeg'\<close>) still answers \<open>image/jpeg\<close>. The name
  \<open>"Ansel Adams "\<close> ends in a space: \<open>headers.set\<close> removes it, so the header is not
  the name verbatim. The name of the second run has a line feed inside: \<open>headers.set\<close>
  throws, and the handler answers 500 with no attribution header at all.
\<close>

theorem attribution_corner_cases:
  "kv_get (CACHE (example_env (cache_holding padded_photo) None)) (request_cacheKey example_request)
     = Inr padded_photo \<and>
   ToBoolean padded_photo \<and>
   imageUrl padded_photo = Inr example_image_url \<and>
   global_fetch (example_runtime example_api_response untyped_image) example_image_url [] =
     Inr untyped_image \<and>
   ok untyped_image \<and> body untyped_image \<noteq> None \<and>
   Headers_get (headers untyped_image) ''Content-Type'' = Some [] \<and>
   response_header ''Content-Type''
     (fetch (example_runtime example_api_response untyped_image) example_request
        (example_env (cache_holding padded_photo) None)) = Some ''image/jpeg'' \<and>
   member padded_photo [''user'', ''name''] = Inr (JString ''Ansel Adams '') \<and>
   response_header ''X-Attribution-Photographer''
     (fetch (example_runtime example_api_response untyped_image) example_request
        (example_env (cache_holding padded_photo) None)) = Some ''Ansel Adams'' \<and>
   kv_get (CACHE (example_env (cache_holding split_photo) None)) (request_cacheKey example_request)
     = Inr split_photo \<and>
   ToBoolean split_photo \<and>
   imageUrl split_photo = Inr example_image_url \<and>
   member split_photo [''user'', ''name''] = Inr (JString [CHR ''A'', CHR 0x0A, CHR ''A'']) \<and>
   status untyped_image = 200 \<and>
   response_status
     (fetch (example_runtime example_api_response untyped_image) example_request
        (example_env (cache_holding split_photo) None)) = Some 500"
proof -
  have held: "metadata (example_runtime example_api_response untyped_image) example_request
                (example_env (cache_holding v) None) = Some v" if "ToBoolean v" for v
    using that by (intro metadata_cache_hit) (simp_all add: cache_holding_facts)
  have hs: "attributed_headers padded_photo (headers untyped_image) =
              Inr ((headers untyped_image)
                (''content-type'' \<mapsto> ''image/jpeg'',
                 ''x-attribution-photographer'' \<mapsto> ''Ansel Adams'',
                 ''x-attribution-photographer-link'' \<mapsto> ''https://unsplash.com/@ansel'',
                 ''x-attribution-unsplash-link'' \<mapsto> ''https://unsplash.com/photos/1''))"
    using attributed_headers_strings [OF untyped_image_facts(4) padded_photo_facts(3-5)]
    by (simp add: example_values_ok padded_photo_facts(6) untyped_image_facts(5) or_else_def)
  note resp = image_stage_success
      [OF padded_photo_facts(2) example_fetch_image untyped_image_facts(1-3) hs]
  have padded:
    "fst (fetch (example_runtime example_api_response untyped_image) example_request
               (example_env (cache_holding padded_photo) None)) =
          Inr \<lparr> status = status untyped_image, statusText = statusText untyped_image,
                headers = (headers untyped_image)
                  (''content-type'' \<mapsto> ''image/jpeg'',
                   ''x-attribution-photographer'' \<mapsto> ''Ansel Adams'',
                   ''x-attribution-photographer-link'' \<mapsto> ''https://unsplash.com/@ansel'',
                   ''x-attribution-unsplash-link'' \<mapsto> ''https://unsplash.com/photos/1''),
                body = Some ''RIFF....WEBP'' \<rparr>"
    by (rule fetch_with_metadata [OF held [OF padded_photo_facts(1)]]) (simp add: resp)
  have "\<exists>e. thrown (example_runtime example_api_response untyped_image) example_request
               (example_env (cache_holding split_photo) None) = Some e"
    by (rule invalid_name_thrown
          [OF held [OF split_photo_facts(1)] split_photo_facts(2) example_fetch_image
              untyped_image_facts(1,2,4) split_photo_facts(3) _ _ split_photo_facts(4)])
       (simp_all add: split_photo_def and_then_def)
  then obtain e where "thrown (example_runtime example_api_response untyped_image) example_request
               (example_env (cache_holding split_photo) None) = Some e" ..
  then have split:
    "fst (fetch (example_runtime example_api_response untyped_image) example_request
            (example_env (cache_holding split_photo) None)) =
       Inr (text_response 500 ''Internal Server Error'')"
    by (rule fetch_thrown)
  show ?thesis
    using padded split
    by (simp add: cache_holding_facts padded_photo_facts split_photo_facts example_fetch_image
          untyped_image_facts response_header_def response_status_def text_response_def
          del: member.simps)
       (simp add: Headers_get_def header_names_lowercase)
qed

subsection \<open>C2: the cache write after a miss\<close>

text \<open>
  Claim C2, amended. When the cache lookup gives a falsy value, Unsplash answers with an
  \<open>ok\<close> response and its body parses as JSON, the handler issues exactly one cache
  write: under the derived key, with \<open>JSON.stringify\<close> of the parsed metadata as the
  value, and with the time to live 900 when \<open>CACHE_DURATION\<close> is absent or empty and
  \<open>parseInt(CACHE_DURATION, 10)\<close> otherwise (a text that does not parse is not replaced
  by the default).
\<close>

theorem cache_write_after_miss:
  assumes "kv_get (CACHE env) (request_cacheKey request) = Inr cached"
      and "\<not> ToBoolean cached"
      and "global_fetch rt (unsplashUrl request) (unsplash_headers env) = Inr r"
      and "ok r"
      and "Response_json rt r = Inr data"
  shows "filter is_Cache_put (snd (fetch rt request env)) =
           [Cache_put (''unsplash:'' @ keywords_of request @ '':'' @ cacheKeyParam request)
              (JSON_stringify rt data)
              (case CACHE_DURATION env of
                 None \<Rightarrow> Finite 900
               | Some s \<Rightarrow> if s = [] then Finite 900 else parseInt_10 s)]"
proof -
  have "filter is_Cache_put (snd (fetch rt request env)) =
          [Cache_put (request_cacheKey request) (JSON_stringify rt data) (cacheDuration env)]"
    using assms by (simp add: cache_writes)
  then show ?thesis
    by (simp add: request_cacheKey_def cacheKey_def cacheDuration_def)
qed

text \<open>C2 at the example run, without \<open>CACHE_DURATION\<close> and with \<open>CACHE_DURATION = "3600"\<close>.\<close>

theorem cache_write_after_miss_witness:
  "filter is_Cache_put
     (snd (fetch (example_runtime example_api_response example_image) example_request
             (example_env empty_cache None)))
     = [Cache_put ''unsplash:sea:'' ''photo.json'' (Finite 900)] \<and>
   filter is_Cache_put
     (snd (fetch (example_runtime example_api_response example_image) example_request
             (example_env empty_cache (Some ''3600''))))
     = [Cache_put ''unsplash:sea:'' ''photo.json'' (Finite 3600)]"
proof -
  have p: "parseInt_10 ''3600'' = Finite 3600"
    by code_simp
  have k: "keywords_of example_request = ''sea''" "cacheKeyParam example_request = []"
    by (simp_all add: keywords_of_def cacheKeyParam_def searchParams_get_def or_else_def
          example_request_def)
  show ?thesis
    using cache_write_after_miss
        [where rt = "example_runtime example_api_response example_image"
           and request = example_request and env = "example_env empty_cache None",
         OF example_cache_facts(2) example_cache_facts(6) example_fetch_api
            example_api_facts(1) example_api_facts(2)]
      cache_write_after_miss
        [where rt = "example_runtime example_api_response example_image"
           and request = example_request and env = "example_env empty_cache (Some ''3600'')",
         OF example_cache_facts(2) example_cache_facts(6) example_fetch_api
            example_api_facts(1) example_api_facts(2)]
    by (simp add: example_api_facts example_cache_facts k p)
qed

text \<open>
  C2 as stated fails for a \<open>CACHE_DURATION\<close> that does not parse: with \<open>"abc"\<close> the
  write is issued with NaN as its time to live, not with 900.
\<close>

theorem unparseable_duration_is_NaN:
  "CACHE_DURATION (example_env empty_cache (Some ''abc'')) = Some ''abc'' \<and>
   parseInt_10 ''abc'' = NaN \<and>
   filter is_Cache_put
     (snd (fetch (example_runtime example_api_response example_image) example_request
             (example_env empty_cache (Some ''abc''))))
     = [Cache_put ''unsplash:sea:'' ''photo.json'' NaN] \<and>
   NaN \<noteq> Finite 900"
proof -
  have p: "parseInt_10 ''abc'' = NaN"
    by code_simp
  show ?thesis
    by (simp add: cache_writes example_cache_facts example_fetch_api example_api_facts
          example_key cacheDuration_def p)
qed

subsection \<open>C3: a cache hit does not contact Unsplash, the image is always fetched\<close>

text \<open>
  Claim C3. When the cache lookup returns a (truthy) metadata record, the calls of the
  request hold no fetch from the Unsplash API. Whenever the handler holds metadata, from
  the cache or freshly fetched, and builds the image URL from it, the calls hold exactly
  one fetch from the image origin.
\<close>

theorem cache_hit_skips_provider:
  "(kv_get (CACHE env) (request_cacheKey request) = Inr cached \<and> ToBoolean cached \<longrightarrow>
      filter is_Metadata_fetch (snd (fetch rt request env)) = []) \<and>
   (metadata rt request env = Some data \<and> imageUrl data = Inr url \<longrightarrow>
      filter is_Image_fetch (snd (fetch rt request env)) = [Image_fetch url])"
proof (intro conjI impI)
  assume "kv_get (CACHE env) (request_cacheKey request) = Inr cached \<and> ToBoolean cached"
  then show "filter is_Metadata_fetch (snd (fetch rt request env)) = []"
    by (simp add: metadata_fetches)
next
  assume "metadata rt request env = Some data \<and> imageUrl data = Inr url"
  then show "filter is_Image_fetch (snd (fetch rt request env)) = [Image_fetch url]"
    by (simp add: image_fetches)
qed

text \<open>C3 at the example run with a warm cache.\<close>

theorem cache_hit_skips_provider_witness:
  "filter is_Metadata_fetch
     (snd (fetch (example_runtime example_api_response example_image) example_request
             (example_env warm_cache None))) = [] \<and>
   filter is_Image_fetch
     (snd (fetch (example_runtime example_api_response example_image) example_request
             (example_env warm_cache None))) = [Image_fetch example_image_url]"
  using cache_hit_skips_provider
      [of "example_env warm_cache None" example_request example_photo
          "example_runtime example_api_response example_image" example_photo example_image_url]
  by (simp add: example_cache_facts example_metadata_warm example_imageUrl)

subsection \<open>C4: an error status of Unsplash is passed on\<close>




subsection \<open>C5: an error of the image origin is passed on\<close>




subsection \<open>C6: any exception gives the fixed 500 response\<close>



subsection \<open>C7: the cache key\<close>

text \<open>
  Claim C7. The key is the text \<open>unsplash:\<close>, the keywords, a colon and the \<open>cacheKey\<close>
  parameter; every cache operation of a request uses the key so built from the
  request's two parameters (each the empty text when absent), and being a function of
  the two it is the same for the same pair.
\<close>

theorem cacheKey_format:
  "cacheKey k c = ''unsplash:'' @ k @ '':'' @ c \<and>
   set (cache_keys (snd (fetch rt request env))) =
     {''unsplash:'' @ keywords_of request @ '':'' @ cacheKeyParam request}"
  by (simp add: cache_keys_fetch request_cacheKey_def cacheKey_def)

text \<open>C7 at the example run.\<close>

theorem cacheKey_format_witness:
  "set (cache_keys
          (snd (fetch (example_runtime example_api_response example_image) example_request
                  (example_env empty_cache None)))) = {''unsplash:sea:''}"
proof -
  have k: "keywords_of example_request = ''sea''" "cacheKeyParam example_request = []"
    by (simp_all add: keywords_of_def cacheKeyParam_def searchParams_get_def or_else_def
          example_request_def)
  show ?thesis
    using cacheKey_format
        [of "''sea''" "[]" "example_runtime example_api_response example_image" example_request
           "example_env empty_cache None"]
    by (simp add: k)
qed

subsection \<open>C8: distinct pairs can share a key\<close>

text \<open>
  Claim C8 says that distinct pairs of parameters give distinct keys. They need not:
  the pairs \<open>("a:b", "c")\<close> and \<open>("a", "b:c")\<close> both give \<open>unsplash:a:b:c\<close>, and the two
  requests look the same entry up. Line 21 calls the key unique.
\<close>

theorem cacheKey_collision:
  "(''a:b'', ''c'') \<noteq> (''a'', ''b:c'') \<and>
   cacheKey ''a:b'' ''c'' = cacheKey ''a'' ''b:c'' \<and>
   hd (snd (fetch rt \<lparr> searchParams = [(''keywords'', ''a:b''), (''cacheKey'', ''c'')] \<rparr> env)) =
     Cache_get ''unsplash:a:b:c'' \<and>
   hd (snd (fetch rt \<lparr> searchParams = [(''keywords'', ''a''), (''cacheKey'', ''b:c'')] \<rparr> env)) =
     Cache_get ''unsplash:a:b:c''"
  by (simp add: fetch_calls unsplashData_calls request_cacheKey_def cacheKey_def keywords_of_def
        cacheKeyParam_def searchParams_get_def or_else_def)

text \<open>C8 at the example run.\<close>

theorem cacheKey_collision_witness:
  "hd (snd (fetch (example_runtime example_api_response example_image)
              \<lparr> searchParams = [(''keywords'', ''a:b''), (''cacheKey'', ''c'')] \<rparr>
              (example_env empty_cache None))) =
   hd (snd (fetch (example_runtime example_api_response example_image)
              \<lparr> searchParams = [(''keywords'', ''a''), (''cacheKey'', ''b:c'')] \<rparr>
              (example_env empty_cache None)))"
  using cacheKey_collision
      [of "example_runtime example_api_response example_image" "example_env empty_cache None"]
  by simp

text \<open>The key does tell the pairs apart when the keywords hold no colon.\<close>

lemma cacheKey_injective_without_colon:
  "CHR '':'' \<notin> set k \<Longrightarrow> CHR '':'' \<notin> set k' \<Longrightarrow> cacheKey k c = cacheKey k' c' \<Longrightarrow> k = k' \<and> c = c'"
  by (auto simp: cacheKey_def append_eq_append_conv2 append_eq_Cons_conv Cons_eq_append_conv)

subsection \<open>C9: the image URL\<close>

text \<open>
  Claim C9. Whenever the handler holds metadata, from the cache or freshly fetched, whose
  \<open>urls.raw\<close> is a string, the one URL it requests from the image origin is that string
  followed by \<open>&fm=webp&q=80&w=1920&fit=max\<close>.
\<close>

theorem image_url_suffix:
  assumes "metadata rt request env = Some data"
      and "member data [''urls'', ''raw''] = Inr (JString raw)"
  shows "filter is_Image_fetch (snd (fetch rt request env)) =
           [Image_fetch (raw @ ''&fm=webp&q=80&w=1920&fit=max'')]"
proof -
  have "imageUrl data = Inr (raw @ ''&fm=webp&q=80&w=1920&fit=max'')"
    using assms(2) by (simp add: imageUrl_def and_then_def)
  with assms(1) show ?thesis
    by (simp add: image_fetches)
qed

text \<open>C9 at the example run, with a warm cache and with an empty one.\<close>

theorem image_url_suffix_witness:
  "filter is_Image_fetch
     (snd (fetch (example_runtime example_api_response example_image) example_request
             (example_env warm_cache None))) =
     [Image_fetch ''https://images.unsplash.com/photo-1?ixid=2&fm=webp&q=80&w=1920&fit=max''] \<and>
   filter is_Image_fetch
     (snd (fetch (example_runtime example_api_response example_image) example_request
             (example_env empty_cache None))) =
     [Image_fetch ''https://images.unsplash.com/photo-1?ixid=2&fm=webp&q=80&w=1920&fit=max'']"
  using image_url_suffix
      [where rt = "example_runtime example_api_response example_image"
         and request = example_request and env = "example_env warm_cache None",
       OF example_metadata_warm example_members(4)]
    image_url_suffix
      [where rt = "example_runtime example_api_response example_image"
         and request = example_request and env = "example_env empty_cache None",
       OF example_metadata_fetched example_members(4)]
  by simp

subsection \<open>C10: a cache hit writes nothing\<close>

text \<open>
  Claim C10. When the cache lookup returns a (truthy) metadata record, the calls of the
  request hold no cache write, so the store is after the request what it was before;
  and a request whose calls hold a cache write missed the cache, got an \<open>ok\<close> response
  from Unsplash and parsed its body.
\<close>

theorem cache_hit_writes_nothing:
  "(kv_get (CACHE env) (request_cacheKey request) = Inr cached \<and> ToBoolean cached \<longrightarrow>
      filter is_Cache_put (snd (fetch rt request env)) = [] \<and>
      cache_after (snd (fetch rt request env)) store = store) \<and>
   (filter is_Cache_put (snd (fetch rt request env)) \<noteq> [] \<longrightarrow>
      fetched_after_miss rt request env)"
proof (intro conjI impI)
  assume "kv_get (CACHE env) (request_cacheKey request) = Inr cached \<and> ToBoolean cached"
  then show "filter is_Cache_put (snd (fetch rt request env)) = []"
    by (simp add: cache_writes)
  then show "cache_after (snd (fetch rt request env)) store = store"
    by (rule cache_after_no_put)
next
  assume "filter is_Cache_put (snd (fetch rt request env)) \<noteq> []"
  then show "fetched_after_miss rt request env"
    by (auto simp: cache_writes fetched_after_miss_def split: sum.splits if_splits)
qed

text \<open>C10 at the example run: no write with a warm cache, a write after a miss.\<close>

theorem cache_hit_writes_nothing_witness:
  "filter is_Cache_put
     (snd (fetch (example_runtime example_api_response example_image) example_request
             (example_env warm_cache None))) = [] \<and>
   cache_after
     (snd (fetch (example_runtime example_api_response example_image) example_request
             (example_env warm_cache None))) Map.empty = Map.empty \<and>
   fetched_after_miss (example_runtime example_api_response example_image) example_request
     (example_env empty_cache None)"
proof -
  have w: "filter is_Cache_put
             (snd (fetch (example_runtime example_api_response example_image) example_request
                     (example_env empty_cache None))) \<noteq> []"
    by (simp add: cache_writes example_cache_facts example_fetch_api example_api_facts)
  show ?thesis
    using cache_hit_writes_nothing
        [of "example_env warm_cache None" example_request example_photo
            "example_runtime example_api_response example_image" Map.empty]
      cache_hit_writes_nothing
        [of "example_env empty_cache None" example_request JNull
            "example_runtime example_api_response example_image"]
      w
    by (simp add: example_cache_facts)
qed

end
